theory Spec2Isabelle
  imports Main
begin

section \<open>Exceptions as values\<close>

text \<open>
  Every failure of the program is a Python \<open>ValueError\<close> carrying a fixed message; the
  message is what tells the failures apart. A dictionary lookup of a missing key raises
  \<open>KeyError\<close>, and a method call on a reference that names no account object raises
  \<open>AttributeError\<close>. An operation returns the exception it raised (\<open>None\<close> when it
  returned normally) together with the state at that moment, so that whatever was
  mutated before a raise stays visible.
\<close>

datatype py_error = ValueError string | KeyError string | AttributeError

abbreviation InvalidAmount :: py_error where
  "InvalidAmount \<equiv> ValueError ''Amount must be positive''"

abbreviation InsufficientBalance :: py_error where
  "InsufficientBalance \<equiv> ValueError ''Insufficient balance''"

abbreviation MinimumBalanceViolation :: py_error where
  "MinimumBalanceViolation \<equiv> ValueError ''Minimum balance rule violated''"

abbreviation MonthlyLimitExceeded :: py_error where
  "MonthlyLimitExceeded \<equiv> ValueError ''Monthly limit exceeded''"

abbreviation UnknownCategory :: py_error where
  "UnknownCategory \<equiv> ValueError ''Category not found''"

type_synonym 's outcome = "py_error option \<times> 's"

definition and_then :: "'s outcome \<Rightarrow> ('s \<Rightarrow> 's outcome) \<Rightarrow> 's outcome" where
  "and_then r f = (case r of (None, s) \<Rightarrow> f s | (Some e, s) \<Rightarrow> (Some e, s))"

section \<open>Transactions and accounts\<close>

text \<open>
  A transaction object refers to its accounts; the accounts live in a heap and are named
  by references, so that two fields of one transaction may name the same account.
  Amounts, balances and limits are Python integers, unbounded, hence \<open>int\<close>. The
  constructors check nothing: any balance, floor or cap may be passed.
\<close>

type_synonym ref = nat

datatype transaction =
    IncomeTransaction ref int
  | ExpenseTransaction ref int
  | TransferTransaction ref ref int

record account =
  account_id :: nat
  balance :: int
  account_password :: string
  account_holder :: string
  transactions :: "transaction list"

record saving_account = account +
  min_balance :: int

record expenses_account = account +
  month_limit :: int
  monthly_withdraw :: int

definition Account_init :: "nat \<Rightarrow> int \<Rightarrow> string \<Rightarrow> string \<Rightarrow> account" where
  "Account_init aid bal pw holder =
     \<lparr>account_id = aid, balance = bal, account_password = pw,
      account_holder = holder, transactions = []\<rparr>"

definition SavingAccount_init :: "nat \<Rightarrow> int \<Rightarrow> string \<Rightarrow> string \<Rightarrow> int \<Rightarrow> saving_account" where
  "SavingAccount_init aid bal pw holder minb =
     \<lparr>account_id = aid, balance = bal, account_password = pw,
      account_holder = holder, transactions = [], min_balance = minb\<rparr>"

definition ExpensesAccount_init :: "nat \<Rightarrow> int \<Rightarrow> string \<Rightarrow> string \<Rightarrow> int \<Rightarrow> expenses_account" where
  "ExpensesAccount_init aid bal pw holder lim =
     \<lparr>account_id = aid, balance = bal, account_password = pw,
      account_holder = holder, transactions = [], month_limit = lim,
      monthly_withdraw = 0\<rparr>"

subsection \<open>Methods of the base class\<close>

text \<open>
  The methods of \<open>Account\<close> work on every extension of the record, as the inherited
  methods work on every subclass instance.
\<close>

definition deposit :: "int \<Rightarrow> 'a account_scheme \<Rightarrow> 'a account_scheme outcome" where
  "deposit amount self =
     (if amount \<le> 0 then (Some InvalidAmount, self)
      else (None, self\<lparr>balance := balance self + amount\<rparr>))"

definition withdraw :: "int \<Rightarrow> 'a account_scheme \<Rightarrow> 'a account_scheme outcome" where
  "withdraw amount self =
     (if amount \<le> 0 then (Some InvalidAmount, self)
      else if amount > balance self then (Some InsufficientBalance, self)
      else (None, self\<lparr>balance := balance self - amount\<rparr>))"

definition get_balance :: "'a account_scheme \<Rightarrow> int" where
  "get_balance self = balance self"

definition add_transaction :: "transaction \<Rightarrow> 'a account_scheme \<Rightarrow> 'a account_scheme outcome" where
  "add_transaction t self = (None, self\<lparr>transactions := transactions self @ [t]\<rparr>)"

definition get_transactions :: "'a account_scheme \<Rightarrow> transaction list" where
  "get_transactions self = transactions self"

subsection \<open>Overridden withdrawals\<close>

definition saving_withdraw :: "int \<Rightarrow> saving_account \<Rightarrow> saving_account outcome" where
  "saving_withdraw amount self =
     (if balance self - amount < min_balance self then (Some MinimumBalanceViolation, self)
      else withdraw amount self)"

definition expenses_withdraw :: "int \<Rightarrow> expenses_account \<Rightarrow> expenses_account outcome" where
  "expenses_withdraw amount self =
     (if monthly_withdraw self + amount > month_limit self
      then (Some MonthlyLimitExceeded, self)
      else and_then (withdraw amount self)
             (\<lambda>self. (None, self\<lparr>monthly_withdraw := monthly_withdraw self + amount\<rparr>)))"

subsection \<open>Objects and dynamic dispatch\<close>

datatype obj =
    Account account
  | SavingAccount saving_account
  | ExpensesAccount expenses_account

definition lift_outcome :: "('a \<Rightarrow> obj) \<Rightarrow> 'a outcome \<Rightarrow> obj outcome" where
  "lift_outcome C r = (case r of (e, s) \<Rightarrow> (e, C s))"

fun obj_deposit :: "int \<Rightarrow> obj \<Rightarrow> obj outcome" where
  "obj_deposit amount (Account a) = lift_outcome Account (deposit amount a)"
| "obj_deposit amount (SavingAccount a) = lift_outcome SavingAccount (deposit amount a)"
| "obj_deposit amount (ExpensesAccount a) = lift_outcome ExpensesAccount (deposit amount a)"

fun obj_withdraw :: "int \<Rightarrow> obj \<Rightarrow> obj outcome" where
  "obj_withdraw amount (Account a) = lift_outcome Account (withdraw amount a)"
| "obj_withdraw amount (SavingAccount a) = lift_outcome SavingAccount (saving_withdraw amount a)"
| "obj_withdraw amount (ExpensesAccount a) =
     lift_outcome ExpensesAccount (expenses_withdraw amount a)"

fun obj_add_transaction :: "transaction \<Rightarrow> obj \<Rightarrow> obj outcome" where
  "obj_add_transaction t (Account a) = lift_outcome Account (add_transaction t a)"
| "obj_add_transaction t (SavingAccount a) = lift_outcome SavingAccount (add_transaction t a)"
| "obj_add_transaction t (ExpensesAccount a) =
     lift_outcome ExpensesAccount (add_transaction t a)"

fun obj_balance :: "obj \<Rightarrow> int" where
  "obj_balance (Account a) = get_balance a"
| "obj_balance (SavingAccount a) = get_balance a"
| "obj_balance (ExpensesAccount a) = get_balance a"

fun obj_transactions :: "obj \<Rightarrow> transaction list" where
  "obj_transactions (Account a) = get_transactions a"
| "obj_transactions (SavingAccount a) = get_transactions a"
| "obj_transactions (ExpensesAccount a) = get_transactions a"

subsection \<open>The heap and the transactions\<close>

type_synonym heap = "ref \<rightharpoonup> obj"

definition invoke :: "(obj \<Rightarrow> obj outcome) \<Rightarrow> ref \<Rightarrow> heap \<Rightarrow> heap outcome" where
  "invoke m r h =
     (case h r of
        None \<Rightarrow> (Some AttributeError, h)
      | Some ob \<Rightarrow> (case m ob of (e, ob') \<Rightarrow> (e, h(r \<mapsto> ob'))))"

fun amount_of :: "transaction \<Rightarrow> int" where
  "amount_of (IncomeTransaction a n) = n"
| "amount_of (ExpenseTransaction a n) = n"
| "amount_of (TransferTransaction a b n) = n"

definition validate :: "transaction \<Rightarrow> heap \<Rightarrow> heap outcome" where
  "validate t h = (if amount_of t \<le> 0 then (Some InvalidAmount, h) else (None, h))"

fun process_transaction :: "transaction \<Rightarrow> heap \<Rightarrow> heap outcome" where
  "process_transaction (IncomeTransaction acc amount) h =
     and_then (validate (IncomeTransaction acc amount) h) (\<lambda>h.
     and_then (invoke (obj_deposit amount) acc h) (\<lambda>h.
     invoke (obj_add_transaction (IncomeTransaction acc amount)) acc h))"
| "process_transaction (ExpenseTransaction acc amount) h =
     and_then (validate (ExpenseTransaction acc amount) h) (\<lambda>h.
     and_then (invoke (obj_withdraw amount) acc h) (\<lambda>h.
     invoke (obj_add_transaction (ExpenseTransaction acc amount)) acc h))"
| "process_transaction (TransferTransaction src dst amount) h =
     and_then (validate (TransferTransaction src dst amount) h) (\<lambda>h.
     and_then (invoke (obj_withdraw amount) src h) (\<lambda>h.
     and_then (invoke (obj_deposit amount) dst h) (\<lambda>h.
     and_then (invoke (obj_add_transaction (TransferTransaction src dst amount)) src h) (\<lambda>h.
     invoke (obj_add_transaction (TransferTransaction src dst amount)) dst h))))"

section \<open>Budget manager\<close>

text \<open>
  The two dictionaries are maps. \<open>add_expense\<close> prints to the console; the lines a call
  printed are returned beside the outcome.
\<close>

record budget_manager =
  category_limits :: "string \<rightharpoonup> int"
  spending :: "string \<rightharpoonup> int"

definition BudgetManager_init :: budget_manager where
  "BudgetManager_init = \<lparr>category_limits = Map.empty, spending = Map.empty\<rparr>"

definition set_budget_limit :: "string \<Rightarrow> int \<Rightarrow> budget_manager \<Rightarrow> budget_manager" where
  "set_budget_limit category limit self =
     self\<lparr>category_limits := (category_limits self)(category \<mapsto> limit),
          spending := (spending self)(category \<mapsto> 0)\<rparr>"

definition warning_line :: "string \<Rightarrow> string" where
  "warning_line category =
     [CHR 0xE2, CHR 0x9A, CHR 0xA0, CHR 0xEF, CHR 0xB8, CHR 0x8F]
       @ '' Warning: '' @ category @ '' budget exceeded!''"

definition add_expense ::
  "string \<Rightarrow> int \<Rightarrow> budget_manager \<Rightarrow> budget_manager outcome \<times> string list" where
  "add_expense category amount self =
     (case spending self category of
        None \<Rightarrow> ((Some UnknownCategory, self), [])
      | Some spent \<Rightarrow>
          (let self' = self\<lparr>spending := (spending self)(category \<mapsto> spent + amount)\<rparr>
           in case category_limits self' category of
                None \<Rightarrow> ((Some (KeyError category), self'), [])
              | Some limit \<Rightarrow>
                  if spent + amount > limit then ((None, self'), [warning_line category])
                  else ((None, self'), [])))"

definition get_budget_status :: "budget_manager \<Rightarrow> (string \<rightharpoonup> int)" where
  "get_budget_status self = spending self"

text \<open>
  A caller drives a manager through a sequence of calls; a call that raises leaves the
  manager as it was at the raise, and the caller may go on with it.
\<close>

datatype budget_op = SetBudgetLimit string int | AddExpense string int

fun budget_step :: "budget_op \<Rightarrow> budget_manager \<Rightarrow> budget_manager" where
  "budget_step (SetBudgetLimit c l) self = set_budget_limit c l self"
| "budget_step (AddExpense c a) self = snd (fst (add_expense c a self))"

fun budget_run :: "budget_op list \<Rightarrow> budget_manager \<Rightarrow> budget_manager" where
  "budget_run [] self = self"
| "budget_run (op # ops) self = budget_run ops (budget_step op self)"

definition budget_after :: "budget_op list \<Rightarrow> budget_manager" where
  "budget_after ops = budget_run ops BudgetManager_init"

text \<open>
  Two predicates on the calls of such a sequence: a call that sets the limit of a
  category, and a call that cannot lower the counter of a category (a limit set for
  another category, or an expense that is for another category or not negative).
\<close>

fun sets_limit :: "string \<Rightarrow> budget_op \<Rightarrow> bool" where
  "sets_limit c (SetBudgetLimit c' l) = (c' = c)"
| "sets_limit c (AddExpense c' a) = False"

definition limit_was_set :: "string \<Rightarrow> budget_op list \<Rightarrow> bool" where
  "limit_was_set c ops = list_ex (sets_limit c) ops"

fun never_lowers :: "string \<Rightarrow> budget_op \<Rightarrow> bool" where
  "never_lowers c (SetBudgetLimit c' l) = (c' \<noteq> c)"
| "never_lowers c (AddExpense c' a) = (c' \<noteq> c \<or> 0 \<le> a)"

section \<open>The usage program\<close>

text \<open>
  The objects the main program constructs: a savings account, an expenses account, and
  the heap that holds them under the references 1 and 2.
\<close>

definition acc1 :: saving_account where
  "acc1 = SavingAccount_init 1 5000 ''pass1'' ''Ane'' 1000"

definition acc2 :: expenses_account where
  "acc2 = ExpensesAccount_init 2 3000 ''pass2'' ''Esther'' 2000"

definition main_heap :: heap where
  "main_heap = [1 \<mapsto> SavingAccount acc1, 2 \<mapsto> ExpensesAccount acc2]"

text \<open>The budget calls of the main program, up to the second expense.\<close>

definition main_budget_ops :: "budget_op list" where
  "main_budget_ops =
     [SetBudgetLimit ''Food'' 2000, SetBudgetLimit ''Travel'' 1500, AddExpense ''Food'' 1200]"

section \<open>Withdrawals\<close>

text \<open>
  Claim C4. \<open>Account.withdraw\<close> makes its checks in order: a non-positive amount is
  refused with the error InvalidAmount; otherwise an amount above the current balance is
  refused with InsufficientBalance; otherwise the balance decreases by exactly the
  amount. In both refusals the balance is as before.
\<close>

theorem withdraw_checks_in_order:
  "(amount \<le> 0 \<longrightarrow>
      fst (withdraw amount self) = Some InvalidAmount \<and>
      balance (snd (withdraw amount self)) = balance self) \<and>
   (0 < amount \<and> balance self < amount \<longrightarrow>
      fst (withdraw amount self) = Some InsufficientBalance \<and>
      balance (snd (withdraw amount self)) = balance self) \<and>
   (0 < amount \<and> amount \<le> balance self \<longrightarrow>
      fst (withdraw amount self) = None \<and>
      balance (snd (withdraw amount self)) = balance self - amount)"
  by (simp add: withdraw_def)

theorem withdraw_checks_in_order_witness:
  "(-5::int) \<le> 0 \<and>
   fst (withdraw (-5) (Account_init 1 100 ''pass1'' ''Ane'')) = Some InvalidAmount \<and>
   balance (snd (withdraw (-5) (Account_init 1 100 ''pass1'' ''Ane''))) = 100 \<and>
   (0::int) < 150 \<and> balance (Account_init 1 100 ''pass1'' ''Ane'') < 150 \<and>
   fst (withdraw 150 (Account_init 1 100 ''pass1'' ''Ane'')) = Some InsufficientBalance \<and>
   balance (snd (withdraw 150 (Account_init 1 100 ''pass1'' ''Ane''))) = 100 \<and>
   (0::int) < 40 \<and> 40 \<le> balance (Account_init 1 100 ''pass1'' ''Ane'') \<and>
   fst (withdraw 40 (Account_init 1 100 ''pass1'' ''Ane'')) = None \<and>
   balance (snd (withdraw 40 (Account_init 1 100 ''pass1'' ''Ane''))) = 60"
  using withdraw_checks_in_order [of "-5" "Account_init 1 100 ''pass1'' ''Ane''"]
        withdraw_checks_in_order [of 150 "Account_init 1 100 ''pass1'' ''Ane''"]
        withdraw_checks_in_order [of 40 "Account_init 1 100 ''pass1'' ''Ane''"]
  by (simp add: Account_init_def)

text \<open>
  Claim C2. \<open>SavingAccount.withdraw\<close>: when \<open>balance - amount\<close> is below
  \<open>min_balance\<close> the call fails with MinimumBalanceViolation and the balance stays;
  when \<open>0 < amount \<le> balance\<close> and \<open>balance - amount = min_balance\<close> the call
  succeeds and leaves exactly the floor; and after any successful call the balance is at
  least \<open>min_balance\<close>.
\<close>

theorem saving_withdraw_floor:
  "(balance self - amount < min_balance self \<longrightarrow>
      fst (saving_withdraw amount self) = Some MinimumBalanceViolation \<and>
      balance (snd (saving_withdraw amount self)) = balance self) \<and>
   (0 < amount \<and> amount \<le> balance self \<and> balance self - amount = min_balance self \<longrightarrow>
      fst (saving_withdraw amount self) = None \<and>
      balance (snd (saving_withdraw amount self)) = min_balance self) \<and>
   (fst (saving_withdraw amount self) = None \<longrightarrow>
      min_balance self \<le> balance (snd (saving_withdraw amount self)))"
  by (simp add: saving_withdraw_def withdraw_def)

theorem saving_withdraw_floor_witness:
  "balance (SavingAccount_init 1 5000 ''pass1'' ''Ane'' 1000) - 4001
     < min_balance (SavingAccount_init 1 5000 ''pass1'' ''Ane'' 1000) \<and>
   fst (saving_withdraw 4001 (SavingAccount_init 1 5000 ''pass1'' ''Ane'' 1000))
     = Some MinimumBalanceViolation \<and>
   balance (snd (saving_withdraw 4001 (SavingAccount_init 1 5000 ''pass1'' ''Ane'' 1000))) = 5000 \<and>
   (0::int) < 4000 \<and> 4000 \<le> balance (SavingAccount_init 1 5000 ''pass1'' ''Ane'' 1000) \<and>
   balance (SavingAccount_init 1 5000 ''pass1'' ''Ane'' 1000) - 4000
     = min_balance (SavingAccount_init 1 5000 ''pass1'' ''Ane'' 1000) \<and>
   fst (saving_withdraw 4000 (SavingAccount_init 1 5000 ''pass1'' ''Ane'' 1000)) = None \<and>
   balance (snd (saving_withdraw 4000 (SavingAccount_init 1 5000 ''pass1'' ''Ane'' 1000))) = 1000 \<and>
   fst (saving_withdraw 500 (SavingAccount_init 1 5000 ''pass1'' ''Ane'' 1000)) = None \<and>
   (1000::int) \<le> balance (snd (saving_withdraw 500 (SavingAccount_init 1 5000 ''pass1'' ''Ane'' 1000)))"
  using saving_withdraw_floor [of "SavingAccount_init 1 5000 ''pass1'' ''Ane'' 1000" 4001]
        saving_withdraw_floor [of "SavingAccount_init 1 5000 ''pass1'' ''Ane'' 1000" 4000]
        saving_withdraw_floor [of "SavingAccount_init 1 5000 ''pass1'' ''Ane'' 1000" 500]
  by (simp add: SavingAccount_init_def saving_withdraw_def withdraw_def)

text \<open>
  Claim C3. \<open>ExpensesAccount.withdraw\<close>: when \<open>monthly_withdraw + amount\<close> exceeds
  \<open>month_limit\<close> the call fails with MonthlyLimitExceeded and neither the balance nor
  the counter changes; when the cap is respected and \<open>0 < amount \<le> balance\<close> the call
  succeeds, the balance goes down by the amount and the counter up by the amount; and
  when a base check fails (\<open>amount \<le> 0\<close> or \<open>amount > balance\<close>) the call fails and
  the counter and the balance are unchanged.
\<close>

theorem expenses_withdraw_cap:
  "(monthly_withdraw self + amount > month_limit self \<longrightarrow>
      fst (expenses_withdraw amount self) = Some MonthlyLimitExceeded \<and>
      balance (snd (expenses_withdraw amount self)) = balance self \<and>
      monthly_withdraw (snd (expenses_withdraw amount self)) = monthly_withdraw self) \<and>
   (monthly_withdraw self + amount \<le> month_limit self \<and> 0 < amount \<and> amount \<le> balance self \<longrightarrow>
      fst (expenses_withdraw amount self) = None \<and>
      balance (snd (expenses_withdraw amount self)) = balance self - amount \<and>
      monthly_withdraw (snd (expenses_withdraw amount self)) = monthly_withdraw self + amount) \<and>
   (amount \<le> 0 \<or> amount > balance self \<longrightarrow>
      fst (expenses_withdraw amount self) \<noteq> None \<and>
      balance (snd (expenses_withdraw amount self)) = balance self \<and>
      monthly_withdraw (snd (expenses_withdraw amount self)) = monthly_withdraw self)"
  by (simp add: expenses_withdraw_def withdraw_def and_then_def)

theorem expenses_withdraw_cap_witness:
  "monthly_withdraw (ExpensesAccount_init 2 3000 ''pass2'' ''Esther'' 2000) + 2001
     > month_limit (ExpensesAccount_init 2 3000 ''pass2'' ''Esther'' 2000) \<and>
   fst (expenses_withdraw 2001 (ExpensesAccount_init 2 3000 ''pass2'' ''Esther'' 2000))
     = Some MonthlyLimitExceeded \<and>
   balance (snd (expenses_withdraw 2001 (ExpensesAccount_init 2 3000 ''pass2'' ''Esther'' 2000)))
     = 3000 \<and>
   monthly_withdraw (snd (expenses_withdraw 2001 (ExpensesAccount_init 2 3000 ''pass2'' ''Esther'' 2000)))
     = 0 \<and>
   monthly_withdraw (ExpensesAccount_init 2 3000 ''pass2'' ''Esther'' 2000) + 2000
     \<le> month_limit (ExpensesAccount_init 2 3000 ''pass2'' ''Esther'' 2000) \<and>
   (0::int) < 2000 \<and> 2000 \<le> balance (ExpensesAccount_init 2 3000 ''pass2'' ''Esther'' 2000) \<and>
   fst (expenses_withdraw 2000 (ExpensesAccount_init 2 3000 ''pass2'' ''Esther'' 2000)) = None \<and>
   balance (snd (expenses_withdraw 2000 (ExpensesAccount_init 2 3000 ''pass2'' ''Esther'' 2000)))
     = 1000 \<and>
   monthly_withdraw (snd (expenses_withdraw 2000 (ExpensesAccount_init 2 3000 ''pass2'' ''Esther'' 2000)))
     = 2000 \<and>
   ((-7::int) \<le> 0 \<or> -7 > balance (ExpensesAccount_init 2 3000 ''pass2'' ''Esther'' 2000)) \<and>
   fst (expenses_withdraw (-7) (ExpensesAccount_init 2 3000 ''pass2'' ''Esther'' 2000))
     = Some InvalidAmount \<and>
   monthly_withdraw (snd (expenses_withdraw (-7) (ExpensesAccount_init 2 3000 ''pass2'' ''Esther'' 2000)))
     = 0"
  using expenses_withdraw_cap [of "ExpensesAccount_init 2 3000 ''pass2'' ''Esther'' 2000" 2001]
        expenses_withdraw_cap [of "ExpensesAccount_init 2 3000 ''pass2'' ''Esther'' 2000" 2000]
        expenses_withdraw_cap [of "ExpensesAccount_init 2 3000 ''pass2'' ''Esther'' 2000" "-7"]
  by (simp add: ExpensesAccount_init_def expenses_withdraw_def withdraw_def and_then_def)

section \<open>Non-positive amounts\<close>

text \<open>
  A \<open>SavingAccount\<close> below its floor refuses a withdrawal of 0 with
  MinimumBalanceViolation: the subclass check comes before the check of the amount.
\<close>

theorem nonpositive_withdraw_saving_counterexample:
  "(0::int) \<le> 0 \<and>
   fst (obj_withdraw 0 (SavingAccount (SavingAccount_init 1 500 ''pass1'' ''Ane'' 1000)))
     = Some MinimumBalanceViolation \<and>
   fst (obj_withdraw 0 (SavingAccount (SavingAccount_init 1 500 ''pass1'' ''Ane'' 1000)))
     \<noteq> Some InvalidAmount"
  by (simp add: SavingAccount_init_def saving_withdraw_def lift_outcome_def)

text \<open>
  Claim C5, amended. For every account of any variant and every amount \<open>\<le> 0\<close>:
  \<open>deposit\<close> fails with InvalidAmount; \<open>withdraw\<close> fails too, with InvalidAmount
  unless the subclass check fires first (MinimumBalanceViolation when
  \<open>balance - amount < min_balance\<close>, MonthlyLimitExceeded when
  \<open>monthly_withdraw + amount > month_limit\<close>); and both leave the balance unchanged.
\<close>

theorem nonpositive_amount_refused:
  assumes "amount \<le> 0"
  shows "fst (obj_deposit amount ob) = Some InvalidAmount \<and>
         obj_balance (snd (obj_deposit amount ob)) = obj_balance ob \<and>
         fst (obj_withdraw amount ob) =
           Some (case ob of
                   Account a \<Rightarrow> InvalidAmount
                 | SavingAccount a \<Rightarrow>
                     if balance a - amount < min_balance a then MinimumBalanceViolation
                     else InvalidAmount
                 | ExpensesAccount a \<Rightarrow>
                     if monthly_withdraw a + amount > month_limit a then MonthlyLimitExceeded
                     else InvalidAmount) \<and>
         obj_balance (snd (obj_withdraw amount ob)) = obj_balance ob"
  using assms
  by (cases ob)
     (simp_all add: deposit_def withdraw_def saving_withdraw_def expenses_withdraw_def
        and_then_def lift_outcome_def get_balance_def)

theorem nonpositive_amount_refused_witness:
  "(-5::int) \<le> 0 \<and>
   fst (obj_deposit (-5) (SavingAccount (SavingAccount_init 1 5000 ''pass1'' ''Ane'' 1000)))
     = Some InvalidAmount \<and>
   obj_balance (snd (obj_deposit (-5) (SavingAccount (SavingAccount_init 1 5000 ''pass1'' ''Ane'' 1000))))
     = 5000 \<and>
   fst (obj_withdraw (-5) (SavingAccount (SavingAccount_init 1 5000 ''pass1'' ''Ane'' 1000)))
     = Some InvalidAmount \<and>
   obj_balance (snd (obj_withdraw (-5) (SavingAccount (SavingAccount_init 1 5000 ''pass1'' ''Ane'' 1000))))
     = 5000"
  using nonpositive_amount_refused
          [of "-5" "SavingAccount (SavingAccount_init 1 5000 ''pass1'' ''Ane'' 1000)"]
  by (simp add: SavingAccount_init_def get_balance_def)

section \<open>Deposit followed by withdrawal\<close>

text \<open>
  An account constructed with a negative balance does not come back: after the deposit
  the balance is still below the amount, and the base check refuses the withdrawal.
\<close>

theorem negative_balance_roundtrip_counterexample:
  "(0::int) < 5 \<and>
   obj_balance (Account (Account_init 1 (-10) ''pass1'' ''Ane'')) = -10 \<and>
   fst (obj_deposit 5 (Account (Account_init 1 (-10) ''pass1'' ''Ane''))) = None \<and>
   fst (obj_withdraw 5 (snd (obj_deposit 5 (Account (Account_init 1 (-10) ''pass1'' ''Ane'')))))
     = Some InsufficientBalance \<and>
   obj_balance
     (snd (obj_withdraw 5 (snd (obj_deposit 5 (Account (Account_init 1 (-10) ''pass1'' ''Ane''))))))
     = -5"
  by (simp add: Account_init_def deposit_def withdraw_def lift_outcome_def get_balance_def)

text \<open>
  Claim C8, amended. For every account of any variant whose balance is not negative and
  every positive amount, \<open>deposit(amount)\<close> followed by \<open>withdraw(amount)\<close> succeeds
  and returns the balance to its original value, provided the withdrawal is not refused
  by the minimum-balance floor or the monthly cap.
\<close>

theorem deposit_then_withdraw_restores:
  assumes "0 < amount" and "0 \<le> obj_balance ob"
    and "fst (obj_withdraw amount (snd (obj_deposit amount ob))) \<noteq> Some MinimumBalanceViolation"
    and "fst (obj_withdraw amount (snd (obj_deposit amount ob))) \<noteq> Some MonthlyLimitExceeded"
  shows "fst (obj_deposit amount ob) = None \<and>
         fst (obj_withdraw amount (snd (obj_deposit amount ob))) = None \<and>
         obj_balance (snd (obj_withdraw amount (snd (obj_deposit amount ob)))) = obj_balance ob"
  using assms
  by (cases ob)
     (simp_all add: deposit_def withdraw_def saving_withdraw_def expenses_withdraw_def
        and_then_def lift_outcome_def get_balance_def split: if_splits)

theorem deposit_then_withdraw_restores_witness:
  "(0::int) < 700 \<and>
   0 \<le> obj_balance (ExpensesAccount (ExpensesAccount_init 2 3000 ''pass2'' ''Esther'' 2000)) \<and>
   fst (obj_deposit 700 (ExpensesAccount (ExpensesAccount_init 2 3000 ''pass2'' ''Esther'' 2000)))
     = None \<and>
   fst (obj_withdraw 700
          (snd (obj_deposit 700
                  (ExpensesAccount (ExpensesAccount_init 2 3000 ''pass2'' ''Esther'' 2000)))))
     = None \<and>
   obj_balance
     (snd (obj_withdraw 700
             (snd (obj_deposit 700
                     (ExpensesAccount (ExpensesAccount_init 2 3000 ''pass2'' ''Esther'' 2000))))))
     = 3000"
proof -
  let ?ob = "ExpensesAccount (ExpensesAccount_init 2 3000 ''pass2'' ''Esther'' 2000)"
  have pos: "(0::int) < 700" by simp
  have bal: "0 \<le> obj_balance ?ob"
    by (simp add: ExpensesAccount_init_def get_balance_def)
  have ok: "fst (obj_withdraw 700 (snd (obj_deposit 700 ?ob))) = None"
    by (simp add: ExpensesAccount_init_def deposit_def withdraw_def expenses_withdraw_def
          and_then_def lift_outcome_def)
  have "obj_balance ?ob = 3000"
    by (simp add: ExpensesAccount_init_def get_balance_def)
  with pos bal deposit_then_withdraw_restores [OF pos bal] ok show ?thesis
    by simp
qed

section \<open>Transfers\<close>

subsection \<open>What the method calls leave behind\<close>

lemma obj_withdraw_result:
  assumes "obj_withdraw amount ob = (e, ob')"
  shows "(e \<noteq> None \<and> ob' = ob) \<or>
         (e = None \<and> 0 < amount \<and> obj_balance ob' = obj_balance ob - amount \<and>
          obj_transactions ob' = obj_transactions ob)"
  using assms
  by (cases ob)
     (auto simp: withdraw_def saving_withdraw_def expenses_withdraw_def and_then_def
        lift_outcome_def get_balance_def get_transactions_def split: if_splits)

lemma obj_withdraw_nonpositive:
  "amount \<le> 0 \<Longrightarrow> fst (obj_withdraw amount ob) \<noteq> None"
  by (cases ob)
     (simp_all add: withdraw_def saving_withdraw_def expenses_withdraw_def and_then_def
        lift_outcome_def)

lemma obj_deposit_result:
  assumes "0 < amount" and "obj_deposit amount ob = (e, ob')"
  shows "e = None \<and> obj_balance ob' = obj_balance ob + amount \<and>
         obj_transactions ob' = obj_transactions ob"
  using assms
  by (cases ob)
     (auto simp: deposit_def lift_outcome_def get_balance_def get_transactions_def)

lemma obj_add_transaction_result:
  assumes "obj_add_transaction t ob = (e, ob')"
  shows "e = None \<and> obj_balance ob' = obj_balance ob \<and>
         obj_transactions ob' = obj_transactions ob @ [t]"
  using assms
  by (cases ob)
     (auto simp: add_transaction_def lift_outcome_def get_balance_def get_transactions_def)

lemma obj_deposit_fst: "0 < amount \<Longrightarrow> fst (obj_deposit amount ob) = None"
  by (cases ob) (simp_all add: deposit_def lift_outcome_def)

lemma obj_add_transaction_fst: "fst (obj_add_transaction t ob) = None"
  by (cases ob) (simp_all add: add_transaction_def lift_outcome_def)

lemma invoke_Some:
  "h r = Some ob \<Longrightarrow> invoke m r h = (fst (m ob), h(r \<mapsto> snd (m ob)))"
  by (simp add: invoke_def split: prod.splits)

lemma invoke_alt:
  "invoke m r h =
     (case h r of
        None \<Rightarrow> (Some AttributeError, h)
      | Some ob \<Rightarrow> (fst (m ob), h(r \<mapsto> snd (m ob))))"
  by (simp add: invoke_def split: option.splits prod.splits)

text \<open>
  A transfer whose amount is not positive, or whose withdrawal is refused, raises and
  leaves the whole heap as it was.
\<close>

lemma transfer_refused:
  assumes "h src = Some a"
    and "amount \<le> 0 \<or> fst (obj_withdraw amount a) \<noteq> None"
  shows "fst (process_transaction (TransferTransaction src dst amount) h) \<noteq> None \<and>
         snd (process_transaction (TransferTransaction src dst amount) h) = h"
proof (cases "amount \<le> 0")
  case True
  then show ?thesis by (simp add: validate_def and_then_def)
next
  case False
  with assms(2) have bad: "fst (obj_withdraw amount a) \<noteq> None" by simp
  obtain e a' where w: "obj_withdraw amount a = (e, a')" by (cases "obj_withdraw amount a")
  with bad obj_withdraw_result [OF w] have "e \<noteq> None" and "a' = a" by auto
  with False assms(1) w show ?thesis
    by (auto simp: validate_def and_then_def invoke_Some map_upd_triv)
qed

lemma transfer_succeeds_only_if:
  assumes "h src = Some a"
    and "process_transaction (TransferTransaction src dst amount) h = (None, h')"
  shows "0 < amount \<and> fst (obj_withdraw amount a) = None"
proof (rule ccontr)
  assume "\<not> (0 < amount \<and> fst (obj_withdraw amount a) = None)"
  then have "amount \<le> 0 \<or> fst (obj_withdraw amount a) \<noteq> None" by auto
  with transfer_refused [of h src a amount dst] assms show False by simp
qed

text \<open>
  The heap after a successful transfer, between two accounts and within one account.
\<close>

lemma transfer_distinct_heap:
  assumes ne: "src \<noteq> dst" and src: "h src = Some a" and dst: "h dst = Some b"
    and pos: "0 < amount" and w: "fst (obj_withdraw amount a) = None"
  shows "process_transaction (TransferTransaction src dst amount) h =
           (None,
            h(src \<mapsto> snd (obj_withdraw amount a),
              dst \<mapsto> snd (obj_deposit amount b),
              src \<mapsto> snd (obj_add_transaction (TransferTransaction src dst amount)
                              (snd (obj_withdraw amount a))),
              dst \<mapsto> snd (obj_add_transaction (TransferTransaction src dst amount)
                              (snd (obj_deposit amount b)))))"
  using assms
  by (simp add: validate_def and_then_def invoke_alt obj_deposit_fst obj_add_transaction_fst)

lemma transfer_same_heap:
  assumes src: "h r = Some a"
    and pos: "0 < amount" and w: "fst (obj_withdraw amount a) = None"
  shows "process_transaction (TransferTransaction r r amount) h =
           (None,
            h(r \<mapsto> snd (obj_add_transaction (TransferTransaction r r amount)
                       (snd (obj_add_transaction (TransferTransaction r r amount)
                          (snd (obj_deposit amount (snd (obj_withdraw amount a)))))))))"
  using assms
  by (simp add: validate_def and_then_def invoke_alt obj_deposit_fst obj_add_transaction_fst)

lemmas eval_defs = validate_def and_then_def invoke_def withdraw_def deposit_def
  saving_withdraw_def expenses_withdraw_def add_transaction_def lift_outcome_def
  get_balance_def get_transactions_def main_heap_def acc1_def acc2_def
  SavingAccount_init_def ExpensesAccount_init_def Account_init_def

subsection \<open>Transfer between accounts\<close>

text \<open>
  A transfer of 100 from an account with balance 500 to the same account succeeds and
  the source's balance is 500 afterwards, not 400.
\<close>

theorem self_transfer_counterexample:
  "fst (process_transaction (TransferTransaction 0 0 100)
          [0 \<mapsto> Account (Account_init 1 500 ''pass1'' ''Ane'')]) = None \<and>
   map_option obj_balance
     (snd (process_transaction (TransferTransaction 0 0 100)
             [0 \<mapsto> Account (Account_init 1 500 ''pass1'' ''Ane'')]) 0) = Some 500 \<and>
   map_option obj_balance ([0 \<mapsto> Account (Account_init 1 500 ''pass1'' ''Ane'')] (0::nat))
     = Some 500 \<and>
   map_option obj_transactions
     (snd (process_transaction (TransferTransaction 0 0 100)
             [0 \<mapsto> Account (Account_init 1 500 ''pass1'' ''Ane'')]) 0)
     = Some [TransferTransaction 0 0 100, TransferTransaction 0 0 100]"
  by (simp add: validate_def and_then_def invoke_def Account_init_def withdraw_def deposit_def
        add_transaction_def lift_outcome_def get_balance_def get_transactions_def)

text \<open>
  Claim C1, amended. For every source account, every destination account other than the
  source, and every amount, a successfully processed \<open>TransferTransaction\<close> decreases
  the source's balance by exactly the amount, increases the destination's balance by
  exactly the amount, and appends the transaction to both histories. For every source
  and destination (the same account or not), when the amount is not positive or the
  source's \<open>withdraw\<close> fails, processing fails, and the destination's balance and both
  histories are unchanged.
\<close>

theorem transfer_moves_amount:
  assumes src: "h src = Some a" and dst: "h dst = Some b"
    and run: "process_transaction (TransferTransaction src dst amount) h = (e, h')"
  shows "(src \<noteq> dst \<and> e = None \<longrightarrow>
            (\<exists>a' b'. h' src = Some a' \<and> h' dst = Some b' \<and>
               obj_balance a' = obj_balance a - amount \<and>
               obj_balance b' = obj_balance b + amount \<and>
               obj_transactions a' = obj_transactions a @ [TransferTransaction src dst amount] \<and>
               obj_transactions b' = obj_transactions b @ [TransferTransaction src dst amount])) \<and>
         (amount \<le> 0 \<or> fst (obj_withdraw amount a) \<noteq> None \<longrightarrow>
            e \<noteq> None \<and>
            (\<exists>a' b'. h' src = Some a' \<and> h' dst = Some b' \<and>
               obj_balance b' = obj_balance b \<and>
               obj_transactions a' = obj_transactions a \<and>
               obj_transactions b' = obj_transactions b))"
proof (rule conjI; rule impI)
  let ?t = "TransferTransaction src dst amount"
  assume ok: "src \<noteq> dst \<and> e = None"
  with run have run': "process_transaction ?t h = (None, h')" by simp
  from transfer_succeeds_only_if [of h src a dst amount h'] src run'
  have pos: "0 < amount" and w: "fst (obj_withdraw amount a) = None" by simp_all
  let ?a1 = "snd (obj_withdraw amount a)" and ?b1 = "snd (obj_deposit amount b)"
  let ?a2 = "snd (obj_add_transaction ?t ?a1)" and ?b2 = "snd (obj_add_transaction ?t ?b1)"
  from transfer_distinct_heap [of src dst h a b amount] ok src dst pos w run'
  have h': "h' src = Some ?a2" "h' dst = Some ?b2" by auto
  have a1: "obj_balance ?a1 = obj_balance a - amount"
           "obj_transactions ?a1 = obj_transactions a"
    using obj_withdraw_result [of amount a None ?a1] w
    by (simp_all add: prod_eq_iff)
  have b1: "obj_balance ?b1 = obj_balance b + amount"
           "obj_transactions ?b1 = obj_transactions b"
    using obj_deposit_result [of amount b "fst (obj_deposit amount b)" ?b1] pos
    by simp_all
  have a2: "obj_balance ?a2 = obj_balance ?a1"
           "obj_transactions ?a2 = obj_transactions ?a1 @ [?t]"
    using obj_add_transaction_result [of ?t ?a1 "fst (obj_add_transaction ?t ?a1)" ?a2]
    by simp_all
  have b2: "obj_balance ?b2 = obj_balance ?b1"
           "obj_transactions ?b2 = obj_transactions ?b1 @ [?t]"
    using obj_add_transaction_result [of ?t ?b1 "fst (obj_add_transaction ?t ?b1)" ?b2]
    by simp_all
  from h' a1 b1 a2 b2
  show "\<exists>a' b'. h' src = Some a' \<and> h' dst = Some b' \<and>
          obj_balance a' = obj_balance a - amount \<and>
          obj_balance b' = obj_balance b + amount \<and>
          obj_transactions a' = obj_transactions a @ [?t] \<and>
          obj_transactions b' = obj_transactions b @ [?t]"
    by simp
next
  assume bad: "amount \<le> 0 \<or> fst (obj_withdraw amount a) \<noteq> None"
  with transfer_refused [of h src a amount dst] src run
  have "e \<noteq> None" and "h' = h" by simp_all
  with src dst
  show "e \<noteq> None \<and>
        (\<exists>a' b'. h' src = Some a' \<and> h' dst = Some b' \<and>
           obj_balance b' = obj_balance b \<and>
           obj_transactions a' = obj_transactions a \<and>
           obj_transactions b' = obj_transactions b)"
    by simp
qed

theorem transfer_moves_amount_witness:
  "main_heap 1 = Some (SavingAccount acc1) \<and> main_heap 2 = Some (ExpensesAccount acc2) \<and>
   (1::nat) \<noteq> 2 \<and>
   fst (process_transaction (TransferTransaction 1 2 1000) main_heap) = None \<and>
   (\<exists>a' b'. snd (process_transaction (TransferTransaction 1 2 1000) main_heap) 1 = Some a' \<and>
            snd (process_transaction (TransferTransaction 1 2 1000) main_heap) 2 = Some b' \<and>
            obj_balance a' = 5000 - 1000 \<and> obj_balance b' = 3000 + 1000 \<and>
            obj_transactions a' = [] @ [TransferTransaction 1 2 1000] \<and>
            obj_transactions b' = [] @ [TransferTransaction 1 2 1000]) \<and>
   fst (obj_withdraw 4500 (SavingAccount acc1)) \<noteq> None \<and>
   fst (process_transaction (TransferTransaction 1 2 4500) main_heap) \<noteq> None \<and>
   (\<exists>a' b'. snd (process_transaction (TransferTransaction 1 2 4500) main_heap) 1 = Some a' \<and>
            snd (process_transaction (TransferTransaction 1 2 4500) main_heap) 2 = Some b' \<and>
            obj_balance b' = 3000 \<and> obj_transactions a' = [] \<and> obj_transactions b' = [])"
proof -
  let ?ok = "process_transaction (TransferTransaction 1 2 1000) main_heap"
  let ?bad = "process_transaction (TransferTransaction 1 2 4500) main_heap"
  have src: "main_heap 1 = Some (SavingAccount acc1)"
    and dst: "main_heap 2 = Some (ExpensesAccount acc2)"
    by (simp_all add: main_heap_def)
  have vals: "obj_balance (SavingAccount acc1) = 5000" "obj_balance (ExpensesAccount acc2) = 3000"
    "obj_transactions (SavingAccount acc1) = []" "obj_transactions (ExpensesAccount acc2) = []"
    by (simp_all add: eval_defs)
  have ok: "fst ?ok = None" by (simp add: eval_defs)
  have refused: "fst (obj_withdraw 4500 (SavingAccount acc1)) \<noteq> None"
    by (simp add: eval_defs)
  from transfer_moves_amount
         [of main_heap 1 "SavingAccount acc1" 2 "ExpensesAccount acc2" 1000 "fst ?ok" "snd ?ok"]
       transfer_moves_amount
         [of main_heap 1 "SavingAccount acc1" 2 "ExpensesAccount acc2" 4500 "fst ?bad" "snd ?bad"]
       src dst ok refused vals
  show ?thesis by simp
qed

subsection \<open>Transfer within one account\<close>

text \<open>
  Claim C10. When one account is both source and destination and processing succeeds,
  the account's final balance equals its initial balance and the transaction stands
  twice at the end of the account's history.
\<close>

theorem self_transfer_keeps_balance:
  assumes acc: "h r = Some a"
    and run: "process_transaction (TransferTransaction r r amount) h = (None, h')"
  shows "\<exists>a'. h' r = Some a' \<and> obj_balance a' = obj_balance a \<and>
           obj_transactions a' =
             obj_transactions a @ [TransferTransaction r r amount, TransferTransaction r r amount]"
proof -
  let ?t = "TransferTransaction r r amount"
  from transfer_succeeds_only_if [of h r a r amount h'] acc run
  have pos: "0 < amount" and w: "fst (obj_withdraw amount a) = None" by simp_all
  let ?a1 = "snd (obj_withdraw amount a)"
  let ?a2 = "snd (obj_deposit amount ?a1)"
  let ?a3 = "snd (obj_add_transaction ?t ?a2)"
  let ?a4 = "snd (obj_add_transaction ?t ?a3)"
  from transfer_same_heap [of h r a amount] acc pos w run
  have h': "h' r = Some ?a4" by auto
  have a1: "obj_balance ?a1 = obj_balance a - amount"
           "obj_transactions ?a1 = obj_transactions a"
    using obj_withdraw_result [of amount a None ?a1] w
    by (simp_all add: prod_eq_iff)
  have a2: "obj_balance ?a2 = obj_balance ?a1 + amount"
           "obj_transactions ?a2 = obj_transactions ?a1"
    using obj_deposit_result [of amount ?a1 "fst (obj_deposit amount ?a1)" ?a2] pos
    by simp_all
  have a3: "obj_balance ?a3 = obj_balance ?a2"
           "obj_transactions ?a3 = obj_transactions ?a2 @ [?t]"
    using obj_add_transaction_result [of ?t ?a2 "fst (obj_add_transaction ?t ?a2)" ?a3]
    by simp_all
  have a4: "obj_balance ?a4 = obj_balance ?a3"
           "obj_transactions ?a4 = obj_transactions ?a3 @ [?t]"
    using obj_add_transaction_result [of ?t ?a3 "fst (obj_add_transaction ?t ?a3)" ?a4]
    by simp_all
  from h' a1 a2 a3 a4 show ?thesis by simp
qed


theorem self_transfer_keeps_balance_witness:
  "main_heap 1 = Some (SavingAccount acc1) \<and>
   fst (process_transaction (TransferTransaction 1 1 1000) main_heap) = None \<and>
   (\<exists>a'. snd (process_transaction (TransferTransaction 1 1 1000) main_heap) 1 = Some a' \<and>
         obj_balance a' = 5000 \<and>
         obj_transactions a' = [TransferTransaction 1 1 1000, TransferTransaction 1 1 1000])"
proof -
  let ?run = "process_transaction (TransferTransaction 1 1 1000) main_heap"
  have acc: "main_heap 1 = Some (SavingAccount acc1)"
    by (simp add: main_heap_def)
  have vals: "obj_balance (SavingAccount acc1) = 5000" "obj_transactions (SavingAccount acc1) = []"
    by (simp_all add: eval_defs)
  have ok: "fst ?run = None" by (simp add: eval_defs)
  then have run: "?run = (None, snd ?run)" by (simp add: prod_eq_iff)
  from self_transfer_keeps_balance [of main_heap 1 "SavingAccount acc1" 1000 "snd ?run"]
       acc run ok vals
  show ?thesis by simp
qed

section \<open>Properties of the budget manager\<close>

subsection \<open>What a call does to the two dictionaries\<close>

lemma add_expense_limits:
  "category_limits (snd (fst (add_expense c a s))) = category_limits s"
  by (simp add: add_expense_def Let_def split: option.splits)

lemma add_expense_spending:
  "spending (snd (fst (add_expense c a s))) =
     (case spending s c of None \<Rightarrow> spending s
      | Some spent \<Rightarrow> (spending s)(c \<mapsto> spent + a))"
  by (simp add: add_expense_def Let_def split: option.splits)

lemma add_expense_dom:
  "dom (spending (snd (fst (add_expense c a s)))) = dom (spending s)"
  by (auto simp: add_expense_spending split: option.splits if_splits)

lemma budget_step_keys:
  "dom (spending s) = dom (category_limits s) \<Longrightarrow>
   dom (spending (budget_step op s)) = dom (category_limits (budget_step op s))"
  by (cases op) (simp_all add: set_budget_limit_def add_expense_dom add_expense_limits)

lemma budget_run_keys:
  "dom (spending s) = dom (category_limits s) \<Longrightarrow>
   dom (spending (budget_run ops s)) = dom (category_limits (budget_run ops s))"
  by (induction ops arbitrary: s) (simp_all add: budget_step_keys)

lemma budget_step_dom:
  "dom (spending (budget_step op s)) = dom (spending s) \<union> {c. sets_limit c op}"
  by (cases op) (auto simp: set_budget_limit_def add_expense_dom)

lemma budget_run_dom:
  "dom (spending (budget_run ops s)) = dom (spending s) \<union> {c. limit_was_set c ops}"
proof (induction ops arbitrary: s)
  case Nil
  show ?case by (simp add: limit_was_set_def)
next
  case (Cons op ops)
  show ?case by (auto simp: Cons.IH budget_step_dom limit_was_set_def)
qed

lemma fresh_manager_keys:
  "dom (spending (budget_after ops)) = dom (category_limits (budget_after ops))"
  unfolding budget_after_def
  by (rule budget_run_keys) (simp add: BudgetManager_init_def)

lemma fresh_manager_dom:
  "(c \<in> dom (spending (budget_after ops))) = limit_was_set c ops"
  by (simp add: budget_after_def budget_run_dom BudgetManager_init_def)

lemma budget_step_counter:
  assumes "never_lowers c op"
  shows "case spending s c of
           None \<Rightarrow> spending (budget_step op s) c = None
         | Some v \<Rightarrow> (\<exists>v'. spending (budget_step op s) c = Some v' \<and> v \<le> v')"
  using assms
  by (cases op) (auto simp: set_budget_limit_def add_expense_spending split: option.splits)

subsection \<open>The two dictionaries have the same keys\<close>

text \<open>
  Claim C9. In every state that a freshly constructed manager reaches through a sequence
  of \<open>set_budget_limit\<close> and \<open>add_expense\<close> calls (failed calls included), the
  spending map and the limits map have the same keys; hence \<open>add_expense\<close> never raises
  \<open>KeyError\<close> at its lookup of the limit.
\<close>

theorem category_keys_agree:
  "dom (spending (budget_after ops)) = dom (category_limits (budget_after ops)) \<and>
   (\<forall>k. fst (fst (add_expense c amount (budget_after ops))) \<noteq> Some (KeyError k))"
proof -
  let ?s = "budget_after ops"
  have keys: "dom (spending ?s) = dom (category_limits ?s)"
    by (rule fresh_manager_keys)
  have "fst (fst (add_expense c amount ?s)) \<noteq> Some (KeyError k)" for k
  proof (cases "spending ?s c")
    case None
    then show ?thesis by (simp add: add_expense_def)
  next
    case (Some spent)
    then have "c \<in> dom (category_limits ?s)" using keys by auto
    then obtain limit where "category_limits ?s c = Some limit" by auto
    with Some show ?thesis by (simp add: add_expense_def Let_def)
  qed
  with keys show ?thesis by simp
qed

theorem category_keys_agree_witness:
  "dom (spending (budget_after main_budget_ops)) = {''Food'', ''Travel''} \<and>
   dom (category_limits (budget_after main_budget_ops)) = {''Food'', ''Travel''} \<and>
   fst (fst (add_expense ''Food'' 900 (budget_after main_budget_ops))) = None \<and>
   fst (fst (add_expense ''Food'' 900 (budget_after main_budget_ops))) \<noteq> Some (KeyError ''Food'')"
proof -
  have "dom (spending (budget_after main_budget_ops)) = {''Food'', ''Travel''}"
    by (auto simp: budget_after_def main_budget_ops_def BudgetManager_init_def
          set_budget_limit_def add_expense_def split: if_splits)
  moreover have "fst (fst (add_expense ''Food'' 900 (budget_after main_budget_ops))) = None"
    by (simp add: budget_after_def main_budget_ops_def BudgetManager_init_def
          set_budget_limit_def add_expense_def)
  ultimately show ?thesis
    using category_keys_agree [of main_budget_ops "''Food''" 900] by simp
qed

subsection \<open>Outcome of an expense\<close>

text \<open>
  Claim C7. On a manager reached from a fresh one, \<open>add_expense\<close> fails with
  UnknownCategory exactly when no limit was ever set for the category, and then the
  manager is unchanged and nothing is printed. Otherwise the call succeeds, adds the
  amount to the category's cumulative spend, and prints exactly one warning line when the
  new spend exceeds the limit and nothing when it does not.
\<close>

theorem add_expense_outcome:
  "(fst (fst (add_expense c amount (budget_after ops))) = Some UnknownCategory
      \<longleftrightarrow> \<not> limit_was_set c ops) \<and>
   (\<not> limit_was_set c ops \<longrightarrow>
      add_expense c amount (budget_after ops) = ((Some UnknownCategory, budget_after ops), [])) \<and>
   (limit_was_set c ops \<longrightarrow>
      (\<exists>spent limit.
         spending (budget_after ops) c = Some spent \<and>
         category_limits (budget_after ops) c = Some limit \<and>
         add_expense c amount (budget_after ops) =
           ((None, (budget_after ops)
                     \<lparr>spending := (spending (budget_after ops))(c \<mapsto> spent + amount)\<rparr>),
            if spent + amount > limit then [warning_line c] else [])))"
proof (cases "limit_was_set c ops")
  case False
  then have "spending (budget_after ops) c = None"
    using fresh_manager_dom [of c ops] by auto
  with False show ?thesis by (simp add: add_expense_def)
next
  case True
  let ?s = "budget_after ops"
  from True have inside: "c \<in> dom (spending ?s)"
    using fresh_manager_dom [of c ops] by simp
  then obtain spent where spent: "spending ?s c = Some spent" by auto
  have "c \<in> dom (category_limits ?s)"
    using inside fresh_manager_keys [of ops] by simp
  then obtain limit where limit: "category_limits ?s c = Some limit" by auto
  from True spent limit show ?thesis by (simp add: add_expense_def Let_def)
qed

theorem add_expense_outcome_witness:
  "limit_was_set ''Food'' main_budget_ops \<and>
   spending (budget_after main_budget_ops) ''Food'' = Some 1200 \<and>
   category_limits (budget_after main_budget_ops) ''Food'' = Some 2000 \<and>
   add_expense ''Food'' 900 (budget_after main_budget_ops) =
     ((None, (budget_after main_budget_ops)
               \<lparr>spending := (spending (budget_after main_budget_ops))(''Food'' \<mapsto> 2100)\<rparr>),
      [warning_line ''Food'']) \<and>
   add_expense ''Food'' 800 (budget_after main_budget_ops) =
     ((None, (budget_after main_budget_ops)
               \<lparr>spending := (spending (budget_after main_budget_ops))(''Food'' \<mapsto> 2000)\<rparr>),
      []) \<and>
   \<not> limit_was_set ''Rent'' main_budget_ops \<and>
   add_expense ''Rent'' 5 (budget_after main_budget_ops) =
     ((Some UnknownCategory, budget_after main_budget_ops), [])"
proof -
  have set: "limit_was_set ''Food'' main_budget_ops" "\<not> limit_was_set ''Rent'' main_budget_ops"
    by (simp_all add: limit_was_set_def main_budget_ops_def)
  have vals: "spending (budget_after main_budget_ops) ''Food'' = Some 1200"
    "category_limits (budget_after main_budget_ops) ''Food'' = Some 2000"
    by (simp_all add: budget_after_def main_budget_ops_def BudgetManager_init_def
          set_budget_limit_def add_expense_def)
  from add_expense_outcome [of "''Food''" 900 main_budget_ops]
       add_expense_outcome [of "''Food''" 800 main_budget_ops]
       add_expense_outcome [of "''Rent''" 5 main_budget_ops] set vals
  show ?thesis by auto
qed

subsection \<open>The spend counter\<close>

text \<open>
  Setting the limit of a category again resets its counter: after a limit and an expense
  of 1200 the counter of Food is 1200, and after a second \<open>set_budget_limit\<close> it is 0.
\<close>

theorem budget_reset_counterexample:
  "spending (budget_run [SetBudgetLimit ''Food'' 2000, AddExpense ''Food'' 1200]
               BudgetManager_init) ''Food'' = Some 1200 \<and>
   spending (budget_run [SetBudgetLimit ''Food'' 2000, AddExpense ''Food'' 1200,
                         SetBudgetLimit ''Food'' 2000]
               BudgetManager_init) ''Food'' = Some 0"
  by (simp add: BudgetManager_init_def set_budget_limit_def add_expense_def)

text \<open>
  Claim C6, amended. For every manager and every sequence of calls in which each
  \<open>set_budget_limit\<close> is for another category and each \<open>add_expense\<close> for this
  category has a non-negative amount, the category's cumulative spend counter does not
  decrease (and a category without a counter stays without one); \<open>set_budget_limit\<close>
  on the category itself sets its counter to 0.
\<close>

theorem spend_counter_monotone:
  "(list_all (never_lowers c) ops \<longrightarrow>
      (case spending s c of
         None \<Rightarrow> spending (budget_run ops s) c = None
       | Some v \<Rightarrow> (\<exists>v'. spending (budget_run ops s) c = Some v' \<and> v \<le> v'))) \<and>
   spending (set_budget_limit c limit s) c = Some 0"
proof (rule conjI)
  show "list_all (never_lowers c) ops \<longrightarrow>
      (case spending s c of
         None \<Rightarrow> spending (budget_run ops s) c = None
       | Some v \<Rightarrow> (\<exists>v'. spending (budget_run ops s) c = Some v' \<and> v \<le> v'))"
  proof (induction ops arbitrary: s)
    case Nil
    show ?case by (simp split: option.splits)
  next
    case (Cons op ops)
    show ?case
    proof
      assume all: "list_all (never_lowers c) (op # ops)"
      then have step: "never_lowers c op" and rest: "list_all (never_lowers c) ops"
        by simp_all
      from budget_step_counter [OF step, of s] Cons.IH [of "budget_step op s"] rest
      show "case spending s c of
              None \<Rightarrow> spending (budget_run (op # ops) s) c = None
            | Some v \<Rightarrow> (\<exists>v'. spending (budget_run (op # ops) s) c = Some v' \<and> v \<le> v')"
        by (auto split: option.splits)
    qed
  qed
  show "spending (set_budget_limit c limit s) c = Some 0"
    by (simp add: set_budget_limit_def)
qed

theorem spend_counter_monotone_witness:
  "list_all (never_lowers ''Food'') [AddExpense ''Food'' 900, SetBudgetLimit ''Travel'' 1500] \<and>
   spending (budget_after main_budget_ops) ''Food'' = Some 1200 \<and>
   spending (budget_run [AddExpense ''Food'' 900, SetBudgetLimit ''Travel'' 1500]
               (budget_after main_budget_ops)) ''Food'' = Some 2100 \<and>
   spending (set_budget_limit ''Food'' 2000 (budget_after main_budget_ops)) ''Food'' = Some 0"
proof -
  have ok: "list_all (never_lowers ''Food'')
              [AddExpense ''Food'' 900, SetBudgetLimit ''Travel'' 1500]"
    by simp
  have before: "spending (budget_after main_budget_ops) ''Food'' = Some 1200"
    by (simp add: budget_after_def main_budget_ops_def BudgetManager_init_def
          set_budget_limit_def add_expense_def)
  have after: "spending (budget_run [AddExpense ''Food'' 900, SetBudgetLimit ''Travel'' 1500]
                 (budget_after main_budget_ops)) ''Food'' = Some 2100"
    by (simp add: budget_after_def main_budget_ops_def BudgetManager_init_def
          set_budget_limit_def add_expense_def)
  from spend_counter_monotone
         [of "''Food''" "[AddExpense ''Food'' 900, SetBudgetLimit ''Travel'' 1500]"
             "budget_after main_budget_ops" 2000]
       ok before after
  show ?thesis by simp
qed

end
